theory Spec2Isabelle
  imports Complex_Main "HOL-Library.Sublist" "HOL-Library.Product_Lexorder"
begin

section \<open>Python values and exceptions\<close>

text \<open>
  The recommender of \<^verbatim>\<open>src/backend/src/policy_recommender.py\<close> works on documents read
  from the policy collection. A document is a dynamically typed value: the model keeps
  the tag of every value, so that each attribute access, iteration and comparison of the
  source that can raise is a branch returning \<open>Inl\<close> of the exception.

  Strings are lists of 8-bit characters (the ASCII range is what the model speaks about);
  a finite float is read as the rational it denotes, so rounding error of the IEEE
  arithmetic is outside the model. A dict is an association list in insertion order.
\<close>

datatype py_error = TypeError | ValueError | AttributeError | IndexError

datatype pyval =
    PNone
  | PBool bool
  | PInt int
  | PFloat rat
  | PStr string
  | PObjectId string
  | PList "pyval list"
  | PDict "(string \<times> pyval) list"

definition bind_err :: "'e + 'a \<Rightarrow> ('a \<Rightarrow> 'e + 'b) \<Rightarrow> 'e + 'b" where
  "bind_err m f = (case m of Inl e \<Rightarrow> Inl e | Inr x \<Rightarrow> f x)"

section \<open>String primitives\<close>

definition lower_char :: "char \<Rightarrow> char" where
  "lower_char c =
     (let n = (of_char c :: nat) in if 65 \<le> n \<and> n \<le> 90 then char_of (n + 32) else c)"

text \<open>\<^verbatim>\<open>s.lower()\<close>\<close>
definition lower :: "string \<Rightarrow> string" where
  "lower s = map lower_char s"

text \<open>\<^verbatim>\<open>a in b\<close> for two strings: \<open>a\<close> occurs in \<open>b\<close> as a contiguous piece.\<close>
definition str_in :: "string \<Rightarrow> string \<Rightarrow> bool" where
  "str_in a b = sublist a b"

text \<open>The ASCII characters that \<^verbatim>\<open>str.strip()\<close> and \<^verbatim>\<open>int()\<close> treat as whitespace.\<close>
definition is_space :: "char \<Rightarrow> bool" where
  "is_space c = (let n = (of_char c :: nat) in (9 \<le> n \<and> n \<le> 13) \<or> (28 \<le> n \<and> n \<le> 32))"

definition strip :: "string \<Rightarrow> string" where
  "strip s = rev (dropWhile is_space (rev (dropWhile is_space s)))"

text \<open>\<^verbatim>\<open>s.replace(c, '')\<close> for a one-character \<open>c\<close>.\<close>
definition remove_char :: "char \<Rightarrow> string \<Rightarrow> string" where
  "remove_char c s = filter (\<lambda>x. x \<noteq> c) s"

text \<open>\<^verbatim>\<open>s.replace(c, d)\<close> for one-character \<open>c\<close> and \<open>d\<close>.\<close>
definition replace_char :: "char \<Rightarrow> char \<Rightarrow> string \<Rightarrow> string" where
  "replace_char c d s = map (\<lambda>x. if x = c then d else x) s"

text \<open>\<^verbatim>\<open>s.split(c)\<close> for a one-character separator.\<close>
fun split_char :: "char \<Rightarrow> string \<Rightarrow> string list" where
  "split_char c [] = [[]]"
| "split_char c (x # xs) =
     (if x = c then [] # split_char c xs
      else (case split_char c xs of [] \<Rightarrow> [[x]] | p # ps \<Rightarrow> (x # p) # ps))"

text \<open>\<^verbatim>\<open>sep.join(parts)\<close>\<close>
fun join :: "string \<Rightarrow> string list \<Rightarrow> string" where
  "join sep [] = []"
| "join sep [p] = p"
| "join sep (p # q # ps) = p @ sep @ join sep (q # ps)"

subsection \<open>\<^verbatim>\<open>int(s)\<close> on a string\<close>

definition is_digit :: "char \<Rightarrow> bool" where
  "is_digit c = (let n = (of_char c :: nat) in 48 \<le> n \<and> n \<le> 57)"

definition digit_val :: "char \<Rightarrow> int" where
  "digit_val c = int (of_char c) - 48"

definition dec_val :: "string \<Rightarrow> int" where
  "dec_val ds = foldl (\<lambda>a c. 10 * a + digit_val c) 0 ds"

text \<open>Digits, with single underscores allowed between two digits.\<close>
fun int_body_ok :: "string \<Rightarrow> bool" where
  "int_body_ok [] = False"
| "int_body_ok [c] = is_digit c"
| "int_body_ok (c # d # r) =
     (if is_digit c
      then (if d = CHR ''_'' then (case r of [] \<Rightarrow> False | e # _ \<Rightarrow> is_digit e \<and> int_body_ok r)
            else int_body_ok (d # r))
      else False)"

text \<open>
  \<^verbatim>\<open>int(s)\<close>: surrounding whitespace is dropped, one sign is allowed, and anything else
  than a decimal literal raises \<^verbatim>\<open>ValueError\<close>, as does a literal of more than 4300
  digits (the interpreter's default limit on integer string conversion).
\<close>
definition py_int :: "string \<Rightarrow> py_error + int" where
  "py_int s =
     (let t = strip s;
          neg = (case t of [] \<Rightarrow> False | c # _ \<Rightarrow> c = CHR ''-'');
          body = (case t of [] \<Rightarrow> [] | c # r \<Rightarrow> if c = CHR ''-'' \<or> c = CHR ''+'' then r else t);
          ds = remove_char (CHR ''_'') body
      in if \<not> int_body_ok body then Inl ValueError
         else if 4300 < length ds then Inl ValueError
         else Inr (if neg then - dec_val ds else dec_val ds))"

section \<open>Age brackets\<close>

text \<open>
  \<^verbatim>\<open>c in v\<close> for a one-character string \<open>c\<close>: substring test on a string, membership on
  a list, key test on a dict; every other value is not iterable.
\<close>
fun py_contains :: "char \<Rightarrow> pyval \<Rightarrow> py_error + bool" where
  "py_contains c (PStr s) = Inr (str_in [c] s)"
| "py_contains c (PList xs) = Inr (PStr [c] \<in> set xs)"
| "py_contains c (PDict kvs) = Inr ([c] \<in> set (map fst kvs))"
| "py_contains c _ = Inl TypeError"

text \<open>
  \<^verbatim>\<open>parse_age_bracket\<close>. Only a string has \<^verbatim>\<open>replace\<close>, \<^verbatim>\<open>split\<close> and \<^verbatim>\<open>strip\<close>;
  on a list or dict the method lookup raises \<^verbatim>\<open>AttributeError\<close>.
\<close>
definition parse_age_bracket :: "pyval \<Rightarrow> py_error + (int \<times> int)" where
  "parse_age_bracket age_string =
     bind_err (py_contains (CHR ''+'') age_string) (\<lambda>has_plus.
       if has_plus then
         (case age_string of
            PStr s \<Rightarrow> bind_err (py_int (strip (remove_char (CHR ''+'') s))) (\<lambda>min_age.
                        Inr (min_age, 999))
          | _ \<Rightarrow> Inl AttributeError)
       else
         bind_err (py_contains (CHR ''-'') age_string) (\<lambda>has_minus.
           if has_minus then
             (case age_string of
                PStr s \<Rightarrow>
                  (case split_char (CHR ''-'') s of
                     p0 # p1 # _ \<Rightarrow>
                       bind_err (py_int (strip p0)) (\<lambda>lo.
                       bind_err (py_int (strip p1)) (\<lambda>hi. Inr (lo, hi)))
                   | _ \<Rightarrow> Inl IndexError)
              | _ \<Rightarrow> Inl AttributeError)
           else
             (case age_string of
                PStr s \<Rightarrow> bind_err (py_int (strip s)) (\<lambda>age. Inr (age, age))
              | _ \<Rightarrow> Inl AttributeError)))"

text \<open>
  The body of the \<^verbatim>\<open>try\<close> in \<^verbatim>\<open>find_applicable_premium\<close>: the bracket is parsed and the
  age compared with both ends; the bare \<^verbatim>\<open>except\<close> turns every exception into "this
  bracket does not apply".
\<close>
definition bracket_applies :: "pyval \<Rightarrow> int \<Rightarrow> bool" where
  "bracket_applies age_str user_age =
     (case parse_age_bracket age_str of
        Inl _ \<Rightarrow> False
      | Inr (min_age, max_age) \<Rightarrow> min_age \<le> user_age \<and> user_age \<le> max_age)"

text \<open>
  A decimal numeral as the brackets of a premium chart write it: at least one digit,
  digits only, short enough for \<^verbatim>\<open>int\<close>.
\<close>
definition digits :: "string \<Rightarrow> bool" where
  "digits ds = (ds \<noteq> [] \<and> list_all is_digit ds \<and> length ds \<le> 4300)"

section \<open>Dynamic operations on values\<close>

text \<open>\<^verbatim>\<open>d.get(k, default)\<close> on a dict.\<close>
definition py_get :: "(string \<times> pyval) list \<Rightarrow> string \<Rightarrow> pyval \<Rightarrow> pyval" where
  "py_get d k dflt = (case map_of d k of None \<Rightarrow> dflt | Some v \<Rightarrow> v)"

text \<open>Truth value of a value in \<^verbatim>\<open>if v\<close>, \<^verbatim>\<open>not v\<close>.\<close>
fun truthy :: "pyval \<Rightarrow> bool" where
  "truthy PNone = False"
| "truthy (PBool b) = b"
| "truthy (PInt i) = (i \<noteq> 0)"
| "truthy (PFloat r) = (r \<noteq> 0)"
| "truthy (PStr s) = (s \<noteq> [])"
| "truthy (PObjectId _) = True"
| "truthy (PList xs) = (xs \<noteq> [])"
| "truthy (PDict kvs) = (kvs \<noteq> [])"

text \<open>
  \<^verbatim>\<open>for x in v\<close>: the elements of a list, the characters of a string, the keys of a dict;
  any other value raises \<^verbatim>\<open>TypeError\<close> (not iterable).
\<close>
fun py_iter :: "pyval \<Rightarrow> py_error + pyval list" where
  "py_iter (PList xs) = Inr xs"
| "py_iter (PStr s) = Inr (map (\<lambda>c. PStr [c]) s)"
| "py_iter (PDict kvs) = Inr (map (\<lambda>kv. PStr (fst kv)) kvs)"
| "py_iter _ = Inl TypeError"

text \<open>\<^verbatim>\<open>v.lower()\<close>: only a string has the method.\<close>
fun py_lower :: "pyval \<Rightarrow> py_error + string" where
  "py_lower (PStr s) = Inr (lower s)"
| "py_lower _ = Inl AttributeError"

text \<open>The number a numeric value denotes (\<^verbatim>\<open>bool\<close> is a subtype of \<^verbatim>\<open>int\<close>).\<close>
fun num_val :: "pyval \<Rightarrow> rat option" where
  "num_val (PBool b) = Some (if b then 1 else 0)"
| "num_val (PInt i) = Some (of_int i)"
| "num_val (PFloat r) = Some r"
| "num_val _ = None"

text \<open>Strings are ordered lexicographically by character code.\<close>
fun str_lt :: "string \<Rightarrow> string \<Rightarrow> bool" where
  "str_lt [] [] = False"
| "str_lt [] (d # t) = True"
| "str_lt (c # s) [] = False"
| "str_lt (c # s) (d # t) =
     (if (of_char c :: nat) < of_char d then True
      else if (of_char c :: nat) > of_char d then False
      else str_lt s t)"

text \<open>
  \<^verbatim>\<open>a < b\<close>. Two numbers and two strings are ordered; the comparisons of the
  recommender (a premium against another premium or against the budget) raise
  \<^verbatim>\<open>TypeError\<close> on every other pair the model covers. (Python also orders two lists;
  a premium amount that is a list is outside the model.)
\<close>
definition py_lt :: "pyval \<Rightarrow> pyval \<Rightarrow> py_error + bool" where
  "py_lt a b =
     (case (num_val a, num_val b) of
        (Some x, Some y) \<Rightarrow> Inr (x < y)
      | _ \<Rightarrow> (case (a, b) of (PStr s, PStr t) \<Rightarrow> Inr (str_lt s t) | _ \<Rightarrow> Inl TypeError))"

text \<open>\<^verbatim>\<open>a <= budget\<close> where the budget is a float.\<close>
definition py_le_num :: "pyval \<Rightarrow> rat \<Rightarrow> py_error + bool" where
  "py_le_num a budget = (case num_val a of Some x \<Rightarrow> Inr (x \<le> budget) | None \<Rightarrow> Inl TypeError)"

text \<open>
  A loop that appends to a result list and whose body may raise: the first exception
  leaves the loop (and the function), otherwise the contributions are concatenated in
  order.
\<close>
fun for_each :: "('a \<Rightarrow> py_error + 'b list) \<Rightarrow> 'a list \<Rightarrow> py_error + 'b list" where
  "for_each f [] = Inr []"
| "for_each f (x # xs) =
     bind_err (f x) (\<lambda>ys. bind_err (for_each f xs) (\<lambda>zs. Inr (ys @ zs)))"

section \<open>Premium resolver\<close>

text \<open>An entry of \<^verbatim>\<open>best_matches\<close>.\<close>
record prem_match =
  premium_amount :: pyval
  sum_insured :: pyval
  zone :: pyval
  composition :: pyval
  age_bracket :: pyval

text \<open>
  The loop over \<^verbatim>\<open>cities\<close>: it stops at the first city that equals the user's city or
  contains it, both lowered; a city that is not a string raises on \<^verbatim>\<open>lower\<close>.
\<close>
fun city_found :: "string \<Rightarrow> pyval list \<Rightarrow> py_error + bool" where
  "city_found user_city [] = Inr False"
| "city_found user_city (city # rest) =
     bind_err (py_lower city) (\<lambda>c.
       if c = lower user_city \<or> str_in (lower user_city) c then Inr True
       else city_found user_city rest)"

text \<open>The body of the loop over \<^verbatim>\<open>age_brackets\<close>; nothing in it can raise.\<close>
definition bracket_matches ::
  "int \<Rightarrow> pyval \<Rightarrow> pyval \<Rightarrow> pyval \<Rightarrow> pyval \<Rightarrow> prem_match list" where
  "bracket_matches user_age sum_ins zone_name compo bracket =
     (case bracket of
        PDict b \<Rightarrow>
          (let age_str = py_get b ''age'' (PStr '''');
               amount = py_get b ''premiumAmount'' (PInt 0)
           in if bracket_applies age_str user_age
              then [\<lparr>premium_amount = amount, sum_insured = sum_ins, zone = zone_name,
                     composition = compo, age_bracket = age_str\<rparr>]
              else [])
      | _ \<Rightarrow> [])"

text \<open>The body of the loop over \<^verbatim>\<open>premium_options\<close>.\<close>
definition option_matches ::
  "int \<Rightarrow> string \<Rightarrow> pyval \<Rightarrow> pyval \<Rightarrow> pyval \<Rightarrow> py_error + prem_match list" where
  "option_matches user_age policy_category sum_ins zone_name option =
     (case option of
        PDict opt \<Rightarrow>
          if py_get opt ''type'' (PStr '''') \<noteq> PStr policy_category then Inr []
          else
            (let compo = py_get opt ''composition'' (PStr '''') in
             bind_err (py_iter (py_get opt ''ageBrackets'' (PList []))) (\<lambda>brackets.
               Inr (concat (map (bracket_matches user_age sum_ins zone_name compo) brackets))))
      | _ \<Rightarrow> Inr [])"

text \<open>The body of the loop over \<^verbatim>\<open>premium_chart\<close>.\<close>
definition chart_matches ::
  "int \<Rightarrow> string \<Rightarrow> pyval \<Rightarrow> pyval \<Rightarrow> py_error + prem_match list" where
  "chart_matches user_age policy_category zone_name chart_item =
     (case chart_item of
        PDict item \<Rightarrow>
          (let sum_ins = py_get item ''sumInsured'' (PInt 0) in
           bind_err (py_iter (py_get item ''premiumOptions'' (PList []))) (\<lambda>options.
             for_each (option_matches user_age policy_category sum_ins zone_name) options))
      | _ \<Rightarrow> Inr [])"

text \<open>The body of the loop over \<^verbatim>\<open>premiums\<close>.\<close>
definition zone_matches ::
  "int \<Rightarrow> string \<Rightarrow> string \<Rightarrow> pyval \<Rightarrow> py_error + prem_match list" where
  "zone_matches user_age user_city policy_category zone_data =
     (case zone_data of
        PDict z \<Rightarrow>
          bind_err (py_iter (py_get z ''cities'' (PList []))) (\<lambda>cities.
          bind_err (city_found user_city cities) (\<lambda>found.
            if \<not> found then Inr []
            else
              (let zone_name = py_get z ''zoneName'' (PStr ''Unknown'') in
               bind_err (py_iter (py_get z ''premiumChart'' (PList []))) (\<lambda>chart.
                 for_each (chart_matches user_age policy_category zone_name) chart))))
      | _ \<Rightarrow> Inr [])"

text \<open>
  \<^verbatim>\<open>min(best_matches, key=...)\<close>: the first entry is the candidate, and a later entry
  replaces it when its key is strictly smaller.
\<close>
fun py_min_by :: "prem_match \<Rightarrow> prem_match list \<Rightarrow> py_error + prem_match" where
  "py_min_by best [] = Inr best"
| "py_min_by best (m # ms) =
     bind_err (py_lt (premium_amount m) (premium_amount best)) (\<lambda>less.
       py_min_by (if less then m else best) ms)"

definition find_applicable_premium ::
  "pyval \<Rightarrow> int \<Rightarrow> string \<Rightarrow> string \<Rightarrow> py_error + prem_match option" where
  "find_applicable_premium premiums user_age user_city policy_category =
     (case premiums of
        PList zones \<Rightarrow>
          if zones = [] then Inr None
          else
            bind_err (for_each (zone_matches user_age user_city policy_category) zones)
              (\<lambda>best_matches.
                 case best_matches of
                   [] \<Rightarrow> Inr None
                 | m # ms \<Rightarrow> bind_err (py_min_by m ms) (\<lambda>best. Inr (Some best)))
      | _ \<Rightarrow> Inr None)"

section \<open>Text of a value\<close>

text \<open>
  The collaborators of the recommender that are not part of the repository: the
  sentence-embedding model with the cosine similarity taken of two of its vectors, and
  the interpreter's printing of a float and quoting of a string inside a container.
\<close>
record env =
  similarity :: "string \<Rightarrow> string \<Rightarrow> rat"
  float_str :: "rat \<Rightarrow> string"
  str_repr :: "string \<Rightarrow> string"

fun show_nat :: "nat \<Rightarrow> string" where
  "show_nat n =
     (if n < 10 then [char_of (48 + n)] else show_nat (n div 10) @ [char_of (48 + n mod 10)])"

definition show_int :: "int \<Rightarrow> string" where
  "show_int i = (if i < 0 then CHR ''-'' # show_nat (nat (- i)) else show_nat (nat i))"

text \<open>\<^verbatim>\<open>repr(v)\<close>, which is how a value prints inside a list or dict.\<close>
fun py_repr :: "env \<Rightarrow> pyval \<Rightarrow> string" where
  "py_repr e PNone = ''None''"
| "py_repr e (PBool b) = (if b then ''True'' else ''False'')"
| "py_repr e (PInt i) = show_int i"
| "py_repr e (PFloat r) = float_str e r"
| "py_repr e (PStr s) = str_repr e s"
| "py_repr e (PObjectId h) = ''ObjectId('' @ str_repr e h @ '')''"
| "py_repr e (PList xs) = ''['' @ join '', '' (map (py_repr e) xs) @ '']''"
| "py_repr e (PDict kvs) =
     ''{'' @ join '', '' (map (\<lambda>kv. str_repr e (fst kv) @ '': '' @ py_repr e (snd kv)) kvs) @ ''}''"

text \<open>\<^verbatim>\<open>str(v)\<close> and \<^verbatim>\<open>f"{v}"\<close>.\<close>
definition py_str :: "env \<Rightarrow> pyval \<Rightarrow> string" where
  "py_str e v = (case v of PStr s \<Rightarrow> s | PObjectId h \<Rightarrow> h | _ \<Rightarrow> py_repr e v)"

section \<open>Coverage extractor\<close>

text \<open>\<^verbatim>\<open>d[k] = v\<close>: a known key keeps its place and takes the new value.\<close>
fun dict_set :: "(string \<times> 'v) list \<Rightarrow> string \<Rightarrow> 'v \<Rightarrow> (string \<times> 'v) list" where
  "dict_set [] k v = [(k, v)]"
| "dict_set (kv # rest) k v = (if fst kv = k then (k, v) # rest else kv # dict_set rest k v)"

text \<open>\<^verbatim>\<open>dict(items)\<close>\<close>
definition py_dict :: "(string \<times> 'v) list \<Rightarrow> (string \<times> 'v) list" where
  "py_dict items = foldl (\<lambda>d kv. dict_set d (fst kv) (snd kv)) [] items"

definition is_dict :: "pyval \<Rightarrow> bool" where
  "is_dict v = (case v of PDict _ \<Rightarrow> True | _ \<Rightarrow> False)"

definition new_key :: "string \<Rightarrow> string \<Rightarrow> string" where
  "new_key parent_key k = (if parent_key \<noteq> [] then parent_key @ '' '' @ k else k)"

text \<open>
  \<^verbatim>\<open>flatten_dict\<close>. \<open>flatten_items\<close> is the loop over \<^verbatim>\<open>d.items()\<close> building \<^verbatim>\<open>items\<close>;
  \<open>flatten_value\<close> is the loop body for one value under its new key, and on a dict it is
  \<^verbatim>\<open>flatten_dict(v, new_key).items()\<close>; \<open>flatten_list\<close> is the inner loop over a list whose
  elements are all dicts.
\<close>
fun flatten_items :: "env \<Rightarrow> (string \<times> pyval) list \<Rightarrow> string \<Rightarrow> (string \<times> pyval) list"
  and flatten_value :: "env \<Rightarrow> string \<Rightarrow> pyval \<Rightarrow> (string \<times> pyval) list"
  and flatten_list :: "env \<Rightarrow> string \<Rightarrow> pyval list \<Rightarrow> (string \<times> pyval) list" where
  "flatten_items e [] parent_key = []"
| "flatten_items e (kv # rest) parent_key =
     flatten_value e (new_key parent_key (fst kv)) (snd kv) @ flatten_items e rest parent_key"
| "flatten_value e nk (PDict d) = py_dict (flatten_items e d nk)"
| "flatten_value e nk (PList vs) =
     (if list_all is_dict vs then flatten_list e nk vs
      else [(nk, PStr (join '', '' (map (py_str e) vs)))])"
| "flatten_value e nk PNone = [(nk, PNone)]"
| "flatten_value e nk (PBool b) = [(nk, PBool b)]"
| "flatten_value e nk (PInt i) = [(nk, PInt i)]"
| "flatten_value e nk (PFloat r) = [(nk, PFloat r)]"
| "flatten_value e nk (PStr s) = [(nk, PStr s)]"
| "flatten_value e nk (PObjectId h) = [(nk, PObjectId h)]"
| "flatten_list e nk [] = []"
| "flatten_list e nk (item # items) = flatten_value e nk item @ flatten_list e nk items"

definition flatten_dict :: "env \<Rightarrow> (string \<times> pyval) list \<Rightarrow> string \<Rightarrow> (string \<times> pyval) list" where
  "flatten_dict e d parent_key = py_dict (flatten_items e d parent_key)"

record coverage_data =
  cov_text :: string
  features :: "string list"
  special_coverages :: "(string \<times> pyval) list list"
  addons :: "(string \<times> pyval) list list"
  raw_coverage :: pyval
  raw_special :: pyval
  raw_addons :: pyval

text \<open>The dict entries of a list field whose flag is truthy; a missing flag is \<^verbatim>\<open>None\<close>.\<close>
definition flagged_dicts :: "string \<Rightarrow> pyval list \<Rightarrow> (string \<times> pyval) list list" where
  "flagged_dicts flag xs =
     concat (map (\<lambda>x. case x of PDict d \<Rightarrow> (if truthy (py_get d flag PNone) then [d] else [])
                              | _ \<Rightarrow> []) xs)"

definition extract_coverage_details :: "env \<Rightarrow> (string \<times> pyval) list \<Rightarrow> coverage_data" where
  "extract_coverage_details e policy =
     (let feats = (case map_of policy ''coverage'' of
                     Some (PDict c) \<Rightarrow>
                       map (\<lambda>kv. replace_char (CHR ''_'') (CHR '' '') (fst kv) @ '': '' @ py_str e (snd kv))
                         (flatten_dict e c [])
                   | _ \<Rightarrow> []);
          specials = (case map_of policy ''specialCoverages'' of
                        Some (PList xs) \<Rightarrow> flagged_dicts ''isCovered'' xs
                      | _ \<Rightarrow> []);
          adds = (case map_of policy ''addOns_OptionalBenefits'' of
                    Some (PList xs) \<Rightarrow> flagged_dicts ''isAvailable'' xs
                  | _ \<Rightarrow> []);
          all_text = feats
            @ map (\<lambda>sc. py_str e (py_get sc ''diseaseName'' (PStr '''')) @ '' ''
                        @ py_str e (py_get sc ''details'' (PStr '''')) @ '' ''
                        @ py_str e (py_get sc ''limit'' (PStr ''''))) specials
            @ map (\<lambda>a. py_str e (py_get a ''name'' (PStr '''')) @ '' ''
                       @ py_str e (py_get a ''details'' (PStr ''''))) adds
      in \<lparr>cov_text = join '' '' all_text, features = feats, special_coverages = specials,
          addons = adds,
          raw_coverage = py_get policy ''coverage'' (PDict []),
          raw_special = py_get policy ''specialCoverages'' (PList []),
          raw_addons = py_get policy ''addOns_OptionalBenefits'' (PList [])\<rparr>)"

section \<open>Coverage matcher: keywords\<close>

definition keyword_map :: "(string \<times> string list) list" where
  "keyword_map =
     [(''hiv'', [''hiv'', ''aids'', ''hiv/aids'', ''std'']),
      (''cancer'', [''cancer'', ''oncology'', ''chemotherapy'', ''malignancy'']),
      (''mental'', [''mental'', ''psychiatric'', ''psychology'']),
      (''maternity'', [''maternity'', ''pregnancy'', ''childbirth'', ''delivery'']),
      (''hospitalization'', [''hospitalization'', ''inpatient'', ''hospital'']),
      (''critical illness'', [''critical illness'', ''critical disease'']),
      (''accident'', [''accident'', ''accidental'', ''injury'']),
      (''ambulance'', [''ambulance'', ''emergency transport'']),
      (''daycare'', [''day care'', ''daycare'', ''day treatment'']),
      (''domiciliary'', [''domiciliary'', ''home treatment'']),
      (''cashless'', [''cashless'', ''network hospital'']),
      (''pre hospitalization'', [''pre hospitalization'', ''pre-hospitalization'']),
      (''post hospitalization'', [''post hospitalization'', ''post-hospitalization''])]"

text \<open>\<^verbatim>\<open>any(kw in s for kw in keywords)\<close>\<close>
definition any_in :: "string list \<Rightarrow> string \<Rightarrow> bool" where
  "any_in keywords s = list_ex (\<lambda>kw. str_in kw s) keywords"

record keyword_match =
  matched_features :: "string list"
  keyword_score :: nat
  total_keywords :: nat
  match_percentage :: rat

text \<open>The loop over the categories, on the three accumulators of the source.\<close>
fun keyword_loop ::
  "string \<Rightarrow> string \<Rightarrow> (string \<times> string list) list \<Rightarrow> string list \<times> nat \<times> nat
   \<Rightarrow> string list \<times> nat \<times> nat" where
  "keyword_loop u t [] acc = acc"
| "keyword_loop u t (ck # rest) (mf, ks, tk) =
     (if any_in (snd ck) u then
        (if any_in (snd ck) t then keyword_loop u t rest (mf @ [fst ck], ks + 1, tk + 1)
         else keyword_loop u t rest (mf, ks, tk + 1))
      else keyword_loop u t rest (mf, ks, tk))"

definition keyword_matching :: "string \<Rightarrow> coverage_data \<Rightarrow> keyword_match" where
  "keyword_matching user_requirement cd =
     (case keyword_loop (lower user_requirement) (lower (cov_text cd)) keyword_map ([], 0, 0) of
        (mf, ks, tk) \<Rightarrow>
          \<lparr>matched_features = mf, keyword_score = ks, total_keywords = tk,
           match_percentage = (if tk > 0 then of_nat ks / of_nat tk * 100 else 0)\<rparr>)"

text \<open>
  The keyword score in the words of the specification: a category is requested when one
  of its triggers occurs in the lowered user text, and matched when, in addition, one of
  its triggers occurs in the lowered policy text.
\<close>
definition requested_categories :: "string \<Rightarrow> (string \<times> string list) list" where
  "requested_categories u = filter (\<lambda>ck. any_in (snd ck) (lower u)) keyword_map"

definition matched_categories :: "string \<Rightarrow> string \<Rightarrow> (string \<times> string list) list" where
  "matched_categories u t = filter (\<lambda>ck. any_in (snd ck) (lower t)) (requested_categories u)"

section \<open>Summary generator\<close>

definition coverage_checks :: "(string \<times> string list) list" where
  "coverage_checks =
     [(''HIV/AIDS'', [''hiv'', ''aids'']),
      (''Cancer'', [''cancer'', ''oncology'', ''chemotherapy'']),
      (''Mental Illness'', [''mental'', ''psychiatric'']),
      (''Maternity'', [''maternity'', ''pregnancy'']),
      (''Critical Illness'', [''critical illness'']),
      (''Accident'', [''accident'', ''accidental'']),
      (''Hospitalization'', [''hospitalization'', ''inpatient''])]"

text \<open>The check mark and the ballot cross of the summary, as their UTF-8 bytes.\<close>
definition check_mark :: string where
  "check_mark = [char_of (226::nat), char_of (156::nat), char_of (147::nat)]"

definition cross_mark :: string where
  "cross_mark = [char_of (226::nat), char_of (156::nat), char_of (151::nat)]"

text \<open>
  The search for a limit among the special coverages: it stops at the first coverage
  whose lowered disease name contains a keyword, and keeps its limit when that is truthy.
  A disease name that is not a string raises on \<^verbatim>\<open>lower\<close>.
\<close>
fun find_details :: "string list \<Rightarrow> (string \<times> pyval) list list \<Rightarrow> py_error + pyval option" where
  "find_details keywords [] = Inr None"
| "find_details keywords (sc # rest) =
     bind_err (py_lower (py_get sc ''diseaseName'' (PStr ''''))) (\<lambda>sc_name.
       if any_in keywords sc_name
       then (let limit = py_get sc ''limit'' (PStr '''')
             in Inr (if truthy limit then Some limit else None))
       else find_details keywords rest)"

text \<open>The loop over \<^verbatim>\<open>coverage_checks\<close>, on \<^verbatim>\<open>coverage_responses\<close> and \<^verbatim>\<open>not_covered\<close>.\<close>
fun check_loop ::
  "env \<Rightarrow> string \<Rightarrow> coverage_data \<Rightarrow> (string \<times> string list) list \<Rightarrow> string list \<times> string list
   \<Rightarrow> py_error + string list \<times> string list" where
  "check_loop e u cd [] acc = Inr acc"
| "check_loop e u cd (ck # rest) (responses, not_covered) =
     (if any_in (snd ck) u then
        (if any_in (snd ck) (lower (cov_text cd)) then
           bind_err (find_details (snd ck) (special_coverages cd)) (\<lambda>details.
             check_loop e u cd rest
               (responses @
                  [case details of
                     Some d \<Rightarrow> check_mark @ '' Yes, '' @ fst ck @ '' is covered ('' @ py_str e d @ '')''
                   | None \<Rightarrow> check_mark @ '' Yes, '' @ fst ck @ '' is covered''],
                not_covered))
         else check_loop e u cd rest (responses, not_covered @ [fst ck]))
      else check_loop e u cd rest (responses, not_covered))"

text \<open>\<^verbatim>\<open>', '.join(names)\<close> on values: every one has to be a string.\<close>
fun join_values :: "string \<Rightarrow> pyval list \<Rightarrow> py_error + string" where
  "join_values sep vs =
     (if list_all (\<lambda>v. case v of PStr _ \<Rightarrow> True | _ \<Rightarrow> False) vs
      then Inr (join sep (map (\<lambda>v. case v of PStr s \<Rightarrow> s | _ \<Rightarrow> []) vs))
      else Inl TypeError)"

definition generate_coverage_summary :: "env \<Rightarrow> string \<Rightarrow> coverage_data \<Rightarrow> py_error + string" where
  "generate_coverage_summary e user_requirement cd =
     bind_err (check_loop e (lower user_requirement) cd coverage_checks ([], [])) (\<lambda>(responses, not_covered).
       if responses = [] \<and> not_covered = [] then
         Inr (''This policy provides standard health insurance coverage including in-patient hospitalization, pre and post hospitalization expenses, day care procedures, and ambulance services. ''
              @ ''However, it may not specifically cover the exact features you mentioned. ''
              @ ''Please review the policy details or consider exploring riders and optional add-ons to customize your coverage.'')
       else
         (let s1 = (if responses = [] then []
                    else if length responses = 1 then responses ! 0 @ ''. ''
                    else if length responses = 2 then responses ! 0 @ '' '' @ responses ! 1 @ ''. ''
                    else join '' '' (take 3 responses) @ ''. '');
              s2 = s1 @ (if not_covered = [] then []
                    else (if length not_covered = 1
                          then cross_mark @ '' However, '' @ not_covered ! 0
                               @ '' is not covered under the base policy. ''
                          else cross_mark @ '' However, '' @ join '', '' (butlast not_covered)
                               @ '' and '' @ last not_covered
                               @ '' are not covered under the base policy. '')
                         @ ''You may explore optional riders and add-ons to enhance your coverage for these features.'')
          in if addons cd = [] then Inr s2
             else bind_err (join_values '', '' (map (\<lambda>a. py_get a ''name'' (PStr '''')) (take 2 (addons cd))))
                    (\<lambda>names. Inr (s2 @ '' Available add-ons include '' @ names @ ''.''))))"

section \<open>Ranking orchestrator\<close>

text \<open>
  The policy collection is a list of documents. \<^verbatim>\<open>find({"isActive": True})\<close> is the
  store's equality filter: it selects the documents whose \<^verbatim>\<open>isActive\<close> field is \<^verbatim>\<open>true\<close>
  (or an array holding \<^verbatim>\<open>true\<close>).
\<close>
definition is_active :: "(string \<times> pyval) list \<Rightarrow> bool" where
  "is_active policy =
     (case map_of policy ''isActive'' of
        Some (PBool b) \<Rightarrow> b
      | Some (PList xs) \<Rightarrow> PBool True \<in> set xs
      | _ \<Rightarrow> False)"

definition find_active :: "(string \<times> pyval) list list \<Rightarrow> (string \<times> pyval) list list" where
  "find_active store = filter is_active store"

text \<open>
  The body of the filter loop: the policy is kept, with its premium, when the resolver
  finds one and its amount is at most the budget.
\<close>
definition filter_policy ::
  "int \<Rightarrow> rat \<Rightarrow> string \<Rightarrow> string \<Rightarrow> (string \<times> pyval) list
   \<Rightarrow> py_error + ((string \<times> pyval) list \<times> prem_match) list" where
  "filter_policy user_age user_budget user_city policy_category policy =
     bind_err (find_applicable_premium (py_get policy ''premiums'' (PList []))
                 user_age user_city policy_category) (\<lambda>info.
       case info of
         None \<Rightarrow> Inr []
       | Some m \<Rightarrow>
           bind_err (py_le_num (premium_amount m) user_budget) (\<lambda>in_budget.
             Inr (if in_budget then [(policy, m)] else [])))"

text \<open>\<^verbatim>\<open>round(x, 4)\<close>: to the nearest multiple of 1/10000, a tie to the even one.\<close>
definition round_half_even :: "rat \<Rightarrow> int" where
  "round_half_even y =
     (let f = \<lfloor>y\<rfloor>; d = y - of_int f
      in if d < 1 / 2 then f else if 1 / 2 < d then f + 1 else if even f then f else f + 1)"

definition round4 :: "rat \<Rightarrow> rat" where
  "round4 x = of_int (round_half_even (x * 10000)) / 10000"

text \<open>Line 370 of the source: the combined score before it is rounded.\<close>
definition combined_exact :: "rat \<Rightarrow> rat \<Rightarrow> rat" where
  "combined_exact percentage nlp = percentage * (7 / 1000) + nlp * (3 / 10)"

record recommendation =
  policy_id :: string
  policy_name :: pyval
  insurer :: pyval
  policy_type :: pyval
  code :: pyval
  premium :: pyval
  rec_sum_insured :: pyval
  rec_zone :: pyval
  rec_composition :: pyval
  rec_age_bracket :: pyval
  nlp_score :: rat
  rec_keyword_score :: rat
  combined_score :: rat
  rec_matched_features :: "string list"
  coverage_summary :: string

text \<open>The body of the scoring loop.\<close>
definition score_policy ::
  "env \<Rightarrow> string \<Rightarrow> (string \<times> pyval) list \<times> prem_match \<Rightarrow> py_error + recommendation list" where
  "score_policy e user_requirement pm =
     (let policy = fst pm; premium_info = snd pm;
          cd = extract_coverage_details e policy;
          nlp = similarity e user_requirement (cov_text cd);
          km = keyword_matching user_requirement cd;
          combined = combined_exact (match_percentage km) nlp
      in bind_err (generate_coverage_summary e user_requirement cd) (\<lambda>summary.
           Inr [\<lparr>policy_id = py_str e (py_get policy ''_id'' (PStr ''N/A'')),
                 policy_name = py_get policy ''policyName'' (PStr ''Unknown''),
                 insurer = py_get policy ''insurer'' (PStr ''Unknown''),
                 policy_type = py_get policy ''policyType'' (PStr ''N/A''),
                 code = py_get policy ''code'' (PStr ''N/A''),
                 premium = premium_amount premium_info,
                 rec_sum_insured = sum_insured premium_info,
                 rec_zone = zone premium_info,
                 rec_composition = composition premium_info,
                 rec_age_bracket = age_bracket premium_info,
                 nlp_score = round4 nlp,
                 rec_keyword_score = match_percentage km,
                 combined_score = round4 combined,
                 rec_matched_features = matched_features km,
                 coverage_summary = summary\<rparr>]))"

text \<open>
  The number a premium is compared by in the sort. Every premium that reaches the sort
  has passed \<^verbatim>\<open>premium_amount <= user_budget\<close>, so it is a number (lemma
  \<open>filter_policy_numeric\<close>); the other branch is never taken.
\<close>
definition premium_num :: "recommendation \<Rightarrow> rat" where
  "premium_num r = (case num_val (premium r) of Some x \<Rightarrow> x | None \<Rightarrow> 0)"

text \<open>The sort key \<^verbatim>\<open>(-x['combined_score'], x['premium'])\<close>; tuples compare lexicographically.\<close>
definition sort_key_of :: "recommendation \<Rightarrow> rat \<times> rat" where
  "sort_key_of r = (- combined_score r, premium_num r)"

text \<open>\<^verbatim>\<open>xs[:n]\<close>: a negative \<open>n\<close> counts from the end.\<close>
definition slice_to :: "'a list \<Rightarrow> int \<Rightarrow> 'a list" where
  "slice_to xs n = (if 0 \<le> n then take (nat n) xs else take (length xs - nat (- n)) xs)"

text \<open>
  The format \<^verbatim>\<open>{v:,}\<close> of the display: a number formats, a string raises
  \<^verbatim>\<open>ValueError\<close> (no thousands separator for the string format), any other value
  raises \<^verbatim>\<open>TypeError\<close> (its \<^verbatim>\<open>__format__\<close> takes no format string).
\<close>
definition format_comma :: "pyval \<Rightarrow> py_error + unit" where
  "format_comma v =
     (case num_val v of
        Some x \<Rightarrow> Inr ()
      | None \<Rightarrow> (case v of PStr s \<Rightarrow> Inl ValueError | _ \<Rightarrow> Inl TypeError))"

text \<open>
  \<^verbatim>\<open>_display_recommendations\<close>: it prints, and of its prints only the line with the
  premium and the sum insured, both formatted with \<^verbatim>\<open>:,\<close>, can raise.
\<close>
fun display_recommendations :: "recommendation list \<Rightarrow> py_error + unit" where
  "display_recommendations [] = Inr ()"
| "display_recommendations (r # rs) =
     bind_err (format_comma (premium r)) (\<lambda>u1.
       bind_err (format_comma (rec_sum_insured r)) (\<lambda>u2. display_recommendations rs))"

definition get_recommendations ::
  "env \<Rightarrow> (string \<times> pyval) list list \<Rightarrow> int \<Rightarrow> rat \<Rightarrow> string \<Rightarrow> string \<Rightarrow> string \<Rightarrow> int
   \<Rightarrow> py_error + recommendation list" where
  "get_recommendations e store user_age user_budget user_city policy_category
       user_coverage_requirement top_n =
     (let active_policies = find_active store in
      if active_policies = [] then Inr []
      else
        bind_err (for_each (filter_policy user_age user_budget user_city policy_category)
                    active_policies) (\<lambda>filtered_policies.
          if filtered_policies = [] then Inr []
          else
            bind_err (for_each (score_policy e user_coverage_requirement) filtered_policies)
              (\<lambda>recommendations.
                 let top_recommendations = slice_to (sort_key sort_key_of recommendations) top_n
                 in bind_err (display_recommendations top_recommendations)
                      (\<lambda>u. Inr top_recommendations))))"

text \<open>
  The list \<^verbatim>\<open>recommendations\<close> as it stands before line 397 sorts it: the code of
  \<^verbatim>\<open>get_recommendations\<close> up to the end of the scoring loop (with its two early returns).
\<close>
definition scored_candidates ::
  "env \<Rightarrow> (string \<times> pyval) list list \<Rightarrow> int \<Rightarrow> rat \<Rightarrow> string \<Rightarrow> string \<Rightarrow> string
   \<Rightarrow> py_error + recommendation list" where
  "scored_candidates e store user_age user_budget user_city policy_category
       user_coverage_requirement =
     (let active_policies = find_active store in
      if active_policies = [] then Inr []
      else
        bind_err (for_each (filter_policy user_age user_budget user_city policy_category)
                    active_policies) (\<lambda>filtered_policies.
          if filtered_policies = [] then Inr []
          else for_each (score_policy e user_coverage_requirement) filtered_policies))"

section \<open>A small store\<close>

text \<open>
  Four policies for Mumbai, category Individual, one bracket \<^verbatim>\<open>"18-35"\<close> each: Alpha at
  5000 and Beta at 4000 are active, Gamma at 3000 is inactive, Delta at 20000 is active.
\<close>
definition example_policy :: "string \<Rightarrow> string \<Rightarrow> bool \<Rightarrow> string \<Rightarrow> int \<Rightarrow> (string \<times> pyval) list" where
  "example_policy ident name active plan amount =
     [(''_id'', PObjectId ident), (''policyName'', PStr name), (''isActive'', PBool active),
      (''coverage'', PDict [(''plan'', PStr plan)]),
      (''premiums'', PList [PDict
         [(''zoneName'', PStr ''Zone 1''), (''cities'', PList [PStr ''Mumbai'', PStr ''Pune'']),
          (''premiumChart'', PList [PDict
             [(''sumInsured'', PInt 500000),
              (''premiumOptions'', PList [PDict
                 [(''type'', PStr ''Individual''), (''composition'', PStr ''1A''),
                  (''ageBrackets'', PList [PDict
                     [(''age'', PStr ''18-35''), (''premiumAmount'', PInt amount)]])]])]])]])]"

definition example_store :: "(string \<times> pyval) list list" where
  "example_store =
     [example_policy ''a1'' ''Alpha'' True ''gold'' 5000,
      example_policy ''b2'' ''Beta'' True ''silver'' 4000,
      example_policy ''c3'' ''Gamma'' False ''bronze'' 3000,
      example_policy ''d4'' ''Delta'' True ''basic'' 20000]"

text \<open>An embedding under which the text of Alpha is slightly closer to the request.\<close>
definition example_env :: env where
  "example_env =
     \<lparr>similarity = (\<lambda>u t. if t = ''plan: gold'' then 3 / 10000 else 1 / 10000),
      float_str = (\<lambda>r. ''0.0''),
      str_repr = (\<lambda>s. [char_of (39::nat)] @ s @ [char_of (39::nat)])\<rparr>"

definition example_result :: "recommendation list" where
  "example_result =
     [\<lparr>policy_id = ''a1'', policy_name = PStr ''Alpha'', insurer = PStr ''Unknown'',
       policy_type = PStr ''N/A'', code = PStr ''N/A'', premium = PInt 5000,
       rec_sum_insured = PInt 500000, rec_zone = PStr ''Zone 1'', rec_composition = PStr ''1A'',
       rec_age_bracket = PStr ''18-35'', nlp_score = 3 / 10000, rec_keyword_score = 0,
       combined_score = 1 / 10000, rec_matched_features = [],
       coverage_summary = ''This policy provides standard health insurance coverage including in-patient hospitalization, pre and post hospitalization expenses, day care procedures, and ambulance services. However, it may not specifically cover the exact features you mentioned. Please review the policy details or consider exploring riders and optional add-ons to customize your coverage.''\<rparr>,
      \<lparr>policy_id = ''b2'', policy_name = PStr ''Beta'', insurer = PStr ''Unknown'',
       policy_type = PStr ''N/A'', code = PStr ''N/A'', premium = PInt 4000,
       rec_sum_insured = PInt 500000, rec_zone = PStr ''Zone 1'', rec_composition = PStr ''1A'',
       rec_age_bracket = PStr ''18-35'', nlp_score = 1 / 10000, rec_keyword_score = 0,
       combined_score = 0, rec_matched_features = [],
       coverage_summary = ''This policy provides standard health insurance coverage including in-patient hospitalization, pre and post hospitalization expenses, day care procedures, and ambulance services. However, it may not specifically cover the exact features you mentioned. Please review the policy details or consider exploring riders and optional add-ons to customize your coverage.''\<rparr>]"

text \<open>
  Two policies whose coverage text names requested features: the request asks for cancer
  and maternity cover, Kappa covers cancer only (keyword score 50), Lambda covers both
  (keyword score 100); the embedding puts Kappa's text closer to the request.
\<close>
definition keyword_store :: "(string \<times> pyval) list list" where
  "keyword_store =
     [example_policy ''k1'' ''Kappa'' True ''cancer'' 4000,
      example_policy ''k2'' ''Lambda'' True ''cancer and maternity'' 5000]"

definition keyword_env :: env where
  "keyword_env =
     \<lparr>similarity = (\<lambda>u t. if t = ''plan: cancer'' then 1 / 2 else 1 / 4),
      float_str = (\<lambda>r. ''0.0''),
      str_repr = (\<lambda>s. [char_of (39::nat)] @ s @ [char_of (39::nat)])\<rparr>"

definition keyword_result :: "recommendation list" where
  "keyword_result =
     [\<lparr>policy_id = ''k2'', policy_name = PStr ''Lambda'', insurer = PStr ''Unknown'',
       policy_type = PStr ''N/A'', code = PStr ''N/A'', premium = PInt 5000,
       rec_sum_insured = PInt 500000, rec_zone = PStr ''Zone 1'', rec_composition = PStr ''1A'',
       rec_age_bracket = PStr ''18-35'', nlp_score = 1 / 4, rec_keyword_score = 100,
       combined_score = 31 / 40, rec_matched_features = [''cancer'', ''maternity''],
       coverage_summary = check_mark @ '' Yes, Cancer is covered '' @ check_mark
         @ '' Yes, Maternity is covered. ''\<rparr>,
      \<lparr>policy_id = ''k1'', policy_name = PStr ''Kappa'', insurer = PStr ''Unknown'',
       policy_type = PStr ''N/A'', code = PStr ''N/A'', premium = PInt 4000,
       rec_sum_insured = PInt 500000, rec_zone = PStr ''Zone 1'', rec_composition = PStr ''1A'',
       rec_age_bracket = PStr ''18-35'', nlp_score = 1 / 2, rec_keyword_score = 50,
       combined_score = 1 / 2, rec_matched_features = [''cancer''],
       coverage_summary = check_mark @ '' Yes, Cancer is covered. '' @ cross_mark
         @ '' However, Maternity is not covered under the base policy. You may explore optional riders and add-ons to enhance your coverage for these features.''\<rparr>]"

text \<open>
  The combined score of one policy before it is rounded: lines 360 to 370 of the source,
  on the text the extractor builds for the policy.
\<close>
definition exact_score :: "env \<Rightarrow> string \<Rightarrow> (string \<times> pyval) list \<Rightarrow> rat" where
  "exact_score e u policy =
     (let cd = extract_coverage_details e policy
      in match_percentage (keyword_matching u cd) * (7 / 1000)
         + similarity e u (cov_text cd) * (3 / 10))"

section \<open>The premium resolver in the words of the specification\<close>








section \<open>Records with missing fields, stray entries and unreadable brackets\<close>


















section \<open>Age brackets: what a bracket string matches\<close>

lemma str_in_single: "str_in [c] s = (c \<in> set s)"
proof
  assume "str_in [c] s"
  then obtain ps ss where "s = ps @ [c] @ ss" by (auto simp: str_in_def sublist_def)
  then show "c \<in> set s" by simp
next
  assume "c \<in> set s"
  then obtain ps ss where "s = ps @ c # ss" by (auto dest: split_list)
  then have "s = ps @ [c] @ ss" by simp
  then show "str_in [c] s" unfolding str_in_def sublist_def by blast
qed

lemma is_digit_chars:
  assumes "is_digit c"
  shows "c \<noteq> CHR ''+''" "c \<noteq> CHR ''-''" "c \<noteq> CHR ''_''" "\<not> is_space c"
  using assms by (auto simp: is_digit_def is_space_def Let_def)

lemma list_all_digit_notin:
  assumes "list_all is_digit ds"
  shows "CHR ''+'' \<notin> set ds" "CHR ''-'' \<notin> set ds" "CHR ''_'' \<notin> set ds"
proof -
  have d: "\<forall>c\<in>set ds. is_digit c" using assms by (simp add: list_all_iff)
  show "CHR ''+'' \<notin> set ds" using d is_digit_chars(1) by blast
  show "CHR ''-'' \<notin> set ds" using d is_digit_chars(2) by blast
  show "CHR ''_'' \<notin> set ds" using d is_digit_chars(3) by blast
qed

lemma dropWhile_none: "\<forall>x\<in>set xs. \<not> P x \<Longrightarrow> dropWhile P xs = xs"
  by (cases xs) auto

lemma strip_digits: "list_all is_digit ds \<Longrightarrow> strip ds = ds"
  by (simp add: strip_def dropWhile_none list_all_iff is_digit_chars)

lemma int_body_ok_digits: "ds \<noteq> [] \<Longrightarrow> list_all is_digit ds \<Longrightarrow> int_body_ok ds"
proof (induction ds rule: int_body_ok.induct)
  case 1 then show ?case by simp
next
  case (2 c) then show ?case by simp
next
  case (3 c d r)
  then show ?case by (auto simp: is_digit_chars)
qed

lemma remove_char_notin: "c \<notin> set s \<Longrightarrow> remove_char c s = s"
  by (auto simp: remove_char_def filter_id_conv)

lemma py_int_digits:
  assumes "digits ds"
  shows "py_int ds = Inr (dec_val ds)"
proof -
  from assms obtain c r where ds: "ds = c # r" and dc: "is_digit c"
    by (cases ds) (auto simp: digits_def)
  have ok: "int_body_ok ds" using assms by (simp add: digits_def int_body_ok_digits)
  have rm: "remove_char (CHR ''_'') ds = ds"
    using assms by (simp add: digits_def remove_char_notin list_all_digit_notin)
  have st: "strip ds = ds" using assms by (simp add: digits_def strip_digits)
  have sg: "c \<noteq> CHR ''-''" "c \<noteq> CHR ''+''" using dc by (simp_all add: is_digit_chars)
  show ?thesis
    unfolding py_int_def st Let_def
    using ok rm sg assms by (simp add: ds digits_def)
qed

lemma split_char_no_sep: "c \<notin> set s \<Longrightarrow> split_char c s = [s]"
  by (induction s) auto

lemma split_char_two:
  "c \<notin> set a \<Longrightarrow> c \<notin> set b \<Longrightarrow> split_char c (a @ c # b) = [a, b]"
  by (induction a) (auto simp: split_char_no_sep)

lemma parse_plus:
  assumes "digits ds"
  shows "parse_age_bracket (PStr (ds @ ''+'')) = Inr (dec_val ds, 999)"
proof -
  have "remove_char (CHR ''+'') (ds @ ''+'') = ds"
    using assms list_all_digit_notin(1)[of ds] remove_char_notin[of "CHR ''+''" ds]
    by (simp add: remove_char_def digits_def)
  then show ?thesis
    using assms
    by (simp add: parse_age_bracket_def bind_err_def str_in_single strip_digits py_int_digits digits_def)
qed

lemma parse_range:
  assumes "digits a" "digits b"
  shows "parse_age_bracket (PStr (a @ CHR ''-'' # b)) = Inr (dec_val a, dec_val b)"
  using assms
  by (simp add: parse_age_bracket_def bind_err_def str_in_single strip_digits py_int_digits
        digits_def list_all_digit_notin split_char_two)

lemma parse_single:
  assumes "digits ds"
  shows "parse_age_bracket (PStr ds) = Inr (dec_val ds, dec_val ds)"
  using assms
  by (simp add: parse_age_bracket_def bind_err_def str_in_single strip_digits py_int_digits
        digits_def list_all_digit_notin)

text \<open>
  C3 (as amended). For a decimal numeral \<open>N\<close>, the bracket \<^verbatim>\<open>"N+"\<close> applies to exactly the
  ages from \<open>N\<close> through 999 (the parser's upper end of an open bracket); for numerals
  \<open>A\<close> and \<open>B\<close>, \<^verbatim>\<open>"A-B"\<close> applies to exactly the ages from \<open>A\<close> through \<open>B\<close>
  inclusive; the plain \<^verbatim>\<open>"N"\<close> applies to the single age \<open>N\<close>.
\<close>
theorem age_bracket_ranges:
  assumes "digits n" and "digits a" and "digits b"
  shows "(bracket_applies (PStr (n @ ''+'')) age \<longleftrightarrow> dec_val n \<le> age \<and> age \<le> 999)
       \<and> (bracket_applies (PStr (a @ ''-'' @ b)) age \<longleftrightarrow> dec_val a \<le> age \<and> age \<le> dec_val b)
       \<and> (bracket_applies (PStr n) age \<longleftrightarrow> age = dec_val n)"
  using assms by (auto simp: bracket_applies_def parse_plus parse_range parse_single)

theorem age_bracket_ranges_witness:
  "digits ''65'' \<and> digits ''18'' \<and> digits ''35''
   \<and> bracket_applies (PStr ''65+'') 70 \<and> \<not> bracket_applies (PStr ''65+'') 64
   \<and> bracket_applies (PStr ''18-35'') 35 \<and> \<not> bracket_applies (PStr ''18-35'') 36
   \<and> \<not> bracket_applies (PStr ''65'') 70 \<and> bracket_applies (PStr ''65'') 65"
proof -
  have d: "digits ''65''" "digits ''18''" "digits ''35''"
    by (simp_all add: digits_def is_digit_def)
  have v: "dec_val ''65'' = 65" "dec_val ''18'' = 18" "dec_val ''35'' = 35"
    by (simp_all add: dec_val_def digit_val_def)
  show ?thesis
    using d v age_bracket_ranges [OF d, of 70] age_bracket_ranges [OF d, of 64]
      age_bracket_ranges [OF d, of 35] age_bracket_ranges [OF d, of 36]
      age_bracket_ranges [OF d, of 65]
    by simp
qed

text \<open>
  C3 as the specification words it takes \<^verbatim>\<open>"N+"\<close> to reach every age from \<open>N\<close> upwards.
  The parser returns \<open>(N, 999)\<close>, so the age 1000 is outside \<^verbatim>\<open>"65+"\<close>.
\<close>
theorem open_bracket_counterexample:
  "(65::int) \<le> 1000 \<and> \<not> bracket_applies (PStr ''65+'') 1000"
  by (simp add: bracket_applies_def parse_age_bracket_def bind_err_def str_in_single
      remove_char_def strip_def is_space_def py_int_def is_digit_def dec_val_def digit_val_def)

section \<open>Keyword score\<close>

lemma keyword_loop_filter:
  "keyword_loop u t cats (mf, ks, tk) =
     (mf @ map fst (filter (\<lambda>ck. any_in (snd ck) t) (filter (\<lambda>ck. any_in (snd ck) u) cats)),
      ks + length (filter (\<lambda>ck. any_in (snd ck) t) (filter (\<lambda>ck. any_in (snd ck) u) cats)),
      tk + length (filter (\<lambda>ck. any_in (snd ck) u) cats))"
  by (induction cats arbitrary: mf ks tk) auto

lemma keyword_matching_fields:
  "match_percentage (keyword_matching u cd) =
     (if requested_categories u = [] then 0
      else of_nat (length (matched_categories u (cov_text cd)))
           / of_nat (length (requested_categories u)) * 100)"
  "matched_features (keyword_matching u cd) = map fst (matched_categories u (cov_text cd))"
  by (simp_all add: keyword_matching_def keyword_loop_filter requested_categories_def
      matched_categories_def)

lemma matched_le_requested:
  "length (matched_categories u t) \<le> length (requested_categories u)"
  by (simp add: matched_categories_def)

text \<open>
  C5. The keyword score is the number of matched categories divided by the number of
  requested categories, times 100; it is 0 when no category is requested, and it lies
  between 0 and 100. The matched feature names are the names of the matched categories.
\<close>
theorem keyword_score_formula:
  "match_percentage (keyword_matching u cd) =
     (if length (requested_categories u) = 0 then 0
      else of_nat (length (matched_categories u (cov_text cd)))
           / of_nat (length (requested_categories u)) * 100)
   \<and> 0 \<le> match_percentage (keyword_matching u cd)
   \<and> match_percentage (keyword_matching u cd) \<le> 100
   \<and> matched_features (keyword_matching u cd) = map fst (matched_categories u (cov_text cd))"
proof -
  let ?m = "length (matched_categories u (cov_text cd))"
  let ?r = "length (requested_categories u)"
  have le: "?m \<le> ?r" by (rule matched_le_requested)
  have bound: "?r \<noteq> 0 \<Longrightarrow> (of_nat ?m :: rat) / of_nat ?r * 100 \<le> 100"
  proof -
    assume nz: "?r \<noteq> 0"
    have "(of_nat ?m :: rat) \<le> of_nat ?r" using le by simp
    then have "(of_nat ?m :: rat) / of_nat ?r \<le> 1" using nz by (simp add: divide_le_eq)
    then have "(of_nat ?m :: rat) / of_nat ?r * 100 \<le> 1 * 100"
      by (rule mult_right_mono) simp
    then show ?thesis by simp
  qed
  show ?thesis using bound by (auto simp: keyword_matching_fields)
qed

theorem keyword_score_formula_witness:
  "match_percentage (keyword_matching ''I need cancer coverage''
       \<lparr>cov_text = ''cancer treatment covered up to 500000'', features = [],
        special_coverages = [], addons = [], raw_coverage = PNone, raw_special = PNone,
        raw_addons = PNone\<rparr>) = 100
   \<and> matched_features (keyword_matching ''I need cancer coverage''
       \<lparr>cov_text = ''cancer treatment covered up to 500000'', features = [],
        special_coverages = [], addons = [], raw_coverage = PNone, raw_special = PNone,
        raw_addons = PNone\<rparr>) = [''cancer'']"
proof -
  have r: "requested_categories ''I need cancer coverage''
             = [(''cancer'', [''cancer'', ''oncology'', ''chemotherapy'', ''malignancy''])]"
    by code_simp
  have m: "matched_categories ''I need cancer coverage'' ''cancer treatment covered up to 500000''
             = [(''cancer'', [''cancer'', ''oncology'', ''chemotherapy'', ''malignancy''])]"
    by code_simp
  show ?thesis
    using keyword_score_formula [of "''I need cancer coverage''"
        "\<lparr>cov_text = ''cancer treatment covered up to 500000'', features = [],
          special_coverages = [], addons = [], raw_coverage = PNone, raw_special = PNone,
          raw_addons = PNone\<rparr>"]
    by (simp add: r m)
qed

section \<open>The ranking pass\<close>

lemma bind_err_Inr:
  "bind_err m f = Inr y \<longleftrightarrow> (\<exists>x. m = Inr x \<and> f x = Inr y)"
  by (cases m) (simp_all add: bind_err_def)

lemma for_each_member:
  "for_each f xs = Inr ys \<Longrightarrow> y \<in> set ys \<Longrightarrow> \<exists>x\<in>set xs. \<exists>zs. f x = Inr zs \<and> y \<in> set zs"
proof (induction xs arbitrary: ys)
  case Nil
  then show ?case by simp
next
  case (Cons x xs)
  from Cons.prems(1) obtain zs ws where
    fx: "f x = Inr zs" and rest: "for_each f xs = Inr ws" and ys: "ys = zs @ ws"
    by (auto simp: bind_err_Inr)
  show ?case
  proof (cases "y \<in> set zs")
    case True
    with fx show ?thesis by auto
  next
    case False
    with Cons.prems(2) ys have "y \<in> set ws" by simp
    with Cons.IH [OF rest] show ?thesis by auto
  qed
qed

lemma for_each_all_empty:
  "\<forall>x\<in>set xs. f x = Inr [] \<Longrightarrow> for_each f xs = Inr []"
  by (induction xs) (simp_all add: bind_err_def)

lemma get_recommendations_scored:
  "get_recommendations e store a b c k u n =
     bind_err (scored_candidates e store a b c k u)
       (\<lambda>rs. bind_err (display_recommendations (slice_to (sort_key sort_key_of rs) n))
              (\<lambda>u. Inr (slice_to (sort_key sort_key_of rs) n)))"
  unfolding get_recommendations_def scored_candidates_def Let_def
  by (auto simp: bind_err_def slice_to_def split: sum.splits)

lemma set_slice_to: "set (slice_to xs n) \<subseteq> set xs"
  by (auto simp: slice_to_def dest: in_set_takeD)

lemma scored_origin:
  assumes "scored_candidates e store a b c k u = Inr rs" and "r \<in> set rs"
  shows "\<exists>policy m. policy \<in> set store \<and> is_active policy
           \<and> find_applicable_premium (py_get policy ''premiums'' (PList [])) a c k = Inr (Some m)
           \<and> py_le_num (premium_amount m) b = Inr True
           \<and> score_policy e u (policy, m) = Inr [r]"
proof -
  from assms obtain filtered where
    f: "for_each (filter_policy a b c k) (find_active store) = Inr filtered" and
    s: "for_each (score_policy e u) filtered = Inr rs"
    by (auto simp: scored_candidates_def Let_def bind_err_Inr split: if_splits)
  from for_each_member [OF s assms(2)] obtain pm zs where
    pm: "pm \<in> set filtered" and sp: "score_policy e u pm = Inr zs" and rz: "r \<in> set zs"
    by blast
  from sp rz have sp1: "score_policy e u pm = Inr [r]"
    by (auto simp: score_policy_def Let_def bind_err_Inr)
  from for_each_member [OF f pm] obtain policy ws where
    pol: "policy \<in> set (find_active store)" and fp: "filter_policy a b c k policy = Inr ws"
    and pw: "pm \<in> set ws" by blast
  from fp pw obtain m where
    "find_applicable_premium (py_get policy ''premiums'' (PList [])) a c k = Inr (Some m)"
    "py_le_num (premium_amount m) b = Inr True" "pm = (policy, m)"
    by (auto simp: filter_policy_def bind_err_Inr split: option.splits if_splits)
  with pol sp1 show ?thesis by (auto simp: find_active_def)
qed

lemma recommendation_origin:
  assumes "get_recommendations e store a b c k u n = Inr recs" and "r \<in> set recs"
  shows "\<exists>policy m. policy \<in> set store \<and> is_active policy
           \<and> find_applicable_premium (py_get policy ''premiums'' (PList [])) a c k = Inr (Some m)
           \<and> py_le_num (premium_amount m) b = Inr True
           \<and> score_policy e u (policy, m) = Inr [r]"
proof -
  from assms(1) obtain rs where
    sc: "scored_candidates e store a b c k u = Inr rs" and
    recs: "recs = slice_to (sort_key sort_key_of rs) n"
    by (auto simp: get_recommendations_scored bind_err_Inr)
  from assms(2) recs set_slice_to have "r \<in> set rs" by fastforce
  with sc show ?thesis by (rule scored_origin)
qed

lemma score_policy_fields:
  assumes "score_policy e u (policy, m) = Inr [r]"
  shows "premium r = premium_amount m"
    and "nlp_score r = round4 (similarity e u (cov_text (extract_coverage_details e policy)))"
    and "rec_keyword_score r = match_percentage (keyword_matching u (extract_coverage_details e policy))"
    and "combined_score r =
           round4 (combined_exact
             (match_percentage (keyword_matching u (extract_coverage_details e policy)))
             (similarity e u (cov_text (extract_coverage_details e policy))))"
    and "policy_id r = py_str e (py_get policy ''_id'' (PStr ''N/A''))"
  using assms by (auto simp: score_policy_def Let_def bind_err_Inr)

lemma py_le_num_True:
  "py_le_num v b = Inr True \<longleftrightarrow> (\<exists>x. num_val v = Some x \<and> x \<le> b)"
  by (auto simp: py_le_num_def split: option.splits)

lemma example_run:
  "get_recommendations example_env example_store 28 15000 ''Mumbai'' ''Individual''
     ''a good plan'' 5 = Inr example_result"
  by code_simp

lemma output_numeric:
  assumes "get_recommendations e store a b c k u n = Inr recs" and "r \<in> set recs"
  shows "num_val (premium r) = Some (premium_num r) \<and> premium_num r \<le> b"
proof -
  from recommendation_origin [OF assms] obtain policy m where
    "py_le_num (premium_amount m) b = Inr True" "score_policy e u (policy, m) = Inr [r]"
    by blast
  then show ?thesis
    by (auto simp: py_le_num_True score_policy_fields(1) premium_num_def)
qed

lemma sorted_keys_output:
  assumes "get_recommendations e store a b c k u n = Inr recs"
  shows "sorted (map sort_key_of recs)"
proof -
  from assms obtain rs where recs: "recs = slice_to (sort_key sort_key_of rs) n"
    by (auto simp: get_recommendations_scored bind_err_Inr)
  have "sorted (map sort_key_of (sort_key sort_key_of rs))" by simp
  then have "sorted (take j (map sort_key_of (sort_key sort_key_of rs)))" for j
    by (rule sorted_wrt_take)
  then show ?thesis by (simp add: recs slice_to_def take_map)
qed

lemma key_order:
  "sort_key_of r \<le> sort_key_of s \<longleftrightarrow>
     combined_score r > combined_score s
     \<or> (combined_score r = combined_score s \<and> premium_num r \<le> premium_num s)"
  by (auto simp: sort_key_of_def less_eq_prod_def)

text \<open>
  C1. In a returned list every entry and its successor are in order: the combined score
  falls, or it stays and the premium does not fall. For a non-negative \<open>top_n\<close> the list
  has at most \<open>top_n\<close> entries: it is the first \<open>top_n\<close> entries of the scored candidates
  sorted by (combined score descending, premium ascending), and all of them when there
  are no more than \<open>top_n\<close>.
\<close>
theorem recommendations_sorted_truncated:
  assumes "get_recommendations e store a b c k u n = Inr recs" and "0 \<le> n"
  shows "(\<forall>i. Suc i < length recs \<longrightarrow>
            combined_score (recs ! i) > combined_score (recs ! Suc i)
            \<or> (combined_score (recs ! i) = combined_score (recs ! Suc i)
               \<and> (\<exists>x y. num_val (premium (recs ! i)) = Some x
                      \<and> num_val (premium (recs ! Suc i)) = Some y \<and> x \<le> y)))
       \<and> int (length recs) \<le> n
       \<and> (\<exists>scored. scored_candidates e store a b c k u = Inr scored
            \<and> recs = take (nat n) (sort_key sort_key_of scored)
            \<and> (int (length scored) \<le> n \<longrightarrow> recs = sort_key sort_key_of scored))"
proof (intro conjI allI impI)
  fix i assume i: "Suc i < length recs"
  have "sorted (map sort_key_of recs)" using assms(1) by (rule sorted_keys_output)
  then have "map sort_key_of recs ! i \<le> map sort_key_of recs ! Suc i"
    using i by (simp add: sorted_iff_nth_Suc)
  then have ord: "sort_key_of (recs ! i) \<le> sort_key_of (recs ! Suc i)" using i by simp
  have ni: "num_val (premium (recs ! i)) = Some (premium_num (recs ! i))"
    using output_numeric [OF assms(1), of "recs ! i"] i by simp
  have ns: "num_val (premium (recs ! Suc i)) = Some (premium_num (recs ! Suc i))"
    using output_numeric [OF assms(1), of "recs ! Suc i"] i by simp
  from ord ni ns
  show "combined_score (recs ! i) > combined_score (recs ! Suc i)
        \<or> (combined_score (recs ! i) = combined_score (recs ! Suc i)
           \<and> (\<exists>x y. num_val (premium (recs ! i)) = Some x
                  \<and> num_val (premium (recs ! Suc i)) = Some y \<and> x \<le> y))"
    by (auto simp: key_order)
next
  from assms(1) obtain rs where
    sc: "scored_candidates e store a b c k u = Inr rs" and
    recs: "recs = slice_to (sort_key sort_key_of rs) n"
    by (auto simp: get_recommendations_scored bind_err_Inr)
  have tk: "recs = take (nat n) (sort_key sort_key_of rs)"
    using recs assms(2) by (simp add: slice_to_def)
  show "int (length recs) \<le> n" using tk assms(2) by simp
  show "\<exists>scored. scored_candidates e store a b c k u = Inr scored
          \<and> recs = take (nat n) (sort_key sort_key_of scored)
          \<and> (int (length scored) \<le> n \<longrightarrow> recs = sort_key sort_key_of scored)"
    using sc tk by auto
qed

theorem recommendations_sorted_truncated_witness:
  "get_recommendations example_env example_store 28 15000 ''Mumbai'' ''Individual''
     ''a good plan'' 5 = Inr example_result
   \<and> (0::int) \<le> 5
   \<and> combined_score (example_result ! 0) > combined_score (example_result ! 1)
   \<and> int (length example_result) \<le> 5
   \<and> (\<exists>scored. scored_candidates example_env example_store 28 15000 ''Mumbai'' ''Individual''
         ''a good plan'' = Inr scored
       \<and> example_result = sort_key sort_key_of scored)"
proof -
  have n: "(0::int) \<le> 5" by simp
  have l: "length example_result = 2" by (simp add: example_result_def)
  have c: "combined_score (example_result ! 0) > combined_score (example_result ! 1)"
    by (simp add: example_result_def)
  from recommendations_sorted_truncated [OF example_run n] obtain scored where
    "scored_candidates example_env example_store 28 15000 ''Mumbai'' ''Individual''
       ''a good plan'' = Inr scored"
    "example_result = take (nat 5) (sort_key sort_key_of scored)"
    "int (length scored) \<le> 5 \<longrightarrow> example_result = sort_key sort_key_of scored"
    by blast
  note sc = this
  have "length example_result = length (take (nat 5) (sort_key sort_key_of scored))"
    using sc(2) by simp
  then have "2 = min (length scored) (nat 5)" using l by simp
  then have "int (length scored) \<le> 5" by simp
  with sc show ?thesis using example_run n l c by auto
qed



text \<open>
  C7. Every returned recommendation is built from a policy of the store that the
  \<^verbatim>\<open>isActive\<close> query selects, so never from one whose flag is false; and taking the
  policies whose flag is false out of the store does not change the result.
\<close>
theorem inactive_never_recommended:
  assumes "get_recommendations e store a b c k u n = Inr recs"
  shows "(\<forall>r\<in>set recs. \<exists>policy\<in>set store.
            is_active policy \<and> map_of policy ''isActive'' \<noteq> Some (PBool False)
            \<and> (\<exists>m. score_policy e u (policy, m) = Inr [r]))
       \<and> get_recommendations e
           (filter (\<lambda>p. map_of p ''isActive'' \<noteq> Some (PBool False)) store) a b c k u n = Inr recs"
proof
  show "\<forall>r\<in>set recs. \<exists>policy\<in>set store.
          is_active policy \<and> map_of policy ''isActive'' \<noteq> Some (PBool False)
          \<and> (\<exists>m. score_policy e u (policy, m) = Inr [r])"
  proof
    fix r assume "r \<in> set recs"
    from recommendation_origin [OF assms this] obtain policy m where
      "policy \<in> set store" "is_active policy" "score_policy e u (policy, m) = Inr [r]"
      by blast
    moreover from this(2) have "map_of policy ''isActive'' \<noteq> Some (PBool False)"
      by (auto simp: is_active_def)
    ultimately show "\<exists>policy\<in>set store.
          is_active policy \<and> map_of policy ''isActive'' \<noteq> Some (PBool False)
          \<and> (\<exists>m. score_policy e u (policy, m) = Inr [r])" by blast
  qed
next
  have "find_active (filter (\<lambda>p. map_of p ''isActive'' \<noteq> Some (PBool False)) store)
          = find_active store"
    unfolding find_active_def filter_filter
    by (rule filter_cong) (auto simp: is_active_def)
  then show "get_recommendations e
       (filter (\<lambda>p. map_of p ''isActive'' \<noteq> Some (PBool False)) store) a b c k u n = Inr recs"
    using assms by (simp add: get_recommendations_def)
qed

theorem inactive_never_recommended_witness:
  "get_recommendations example_env example_store 28 15000 ''Mumbai'' ''Individual''
     ''a good plan'' 5 = Inr example_result
   \<and> map_of (example_store ! 2) ''isActive'' = Some (PBool False)
   \<and> (\<exists>policy\<in>set example_store.
        map_of policy ''isActive'' \<noteq> Some (PBool False)
        \<and> (\<exists>m. score_policy example_env ''a good plan'' (policy, m) = Inr [example_result ! 0]))"
proof -
  have g: "map_of (example_store ! 2) ''isActive'' = Some (PBool False)"
    by (simp add: example_store_def example_policy_def)
  have m: "example_result ! 0 \<in> set example_result" by (simp add: example_result_def)
  from inactive_never_recommended [OF example_run] m
  have "\<exists>policy\<in>set example_store.
          is_active policy \<and> map_of policy ''isActive'' \<noteq> Some (PBool False)
          \<and> (\<exists>m. score_policy example_env ''a good plan'' (policy, m) = Inr [example_result ! 0])"
    by blast
  then show ?thesis using example_run g by blast
qed

lemma filter_policy_empty:
  assumes "find_applicable_premium (py_get policy ''premiums'' (PList [])) a c k = Inr None
           \<or> (\<exists>m x. find_applicable_premium (py_get policy ''premiums'' (PList [])) a c k
                       = Inr (Some m)
                     \<and> num_val (premium_amount m) = Some x \<and> b < x)"
  shows "filter_policy a b c k policy = Inr []"
  using assms by (auto simp: filter_policy_def bind_err_def py_le_num_def)

text \<open>
  C9. With no active policy in the store the result is the empty list; and when, for
  every active policy, the resolver finds no premium or finds one above the budget, the
  result is the empty list as well. Both are normal results, not exceptions.
\<close>
theorem empty_results:
  "(find_active store = [] \<longrightarrow> get_recommendations e store a b c k u n = Inr [])
   \<and> ((\<forall>policy\<in>set store. is_active policy \<longrightarrow>
          find_applicable_premium (py_get policy ''premiums'' (PList [])) a c k = Inr None
          \<or> (\<exists>m x. find_applicable_premium (py_get policy ''premiums'' (PList [])) a c k
                      = Inr (Some m)
                    \<and> num_val (premium_amount m) = Some x \<and> b < x))
       \<longrightarrow> get_recommendations e store a b c k u n = Inr [])"
proof (intro conjI impI)
  assume "find_active store = []"
  then show "get_recommendations e store a b c k u n = Inr []"
    by (simp add: get_recommendations_def)
next
  assume h: "\<forall>policy\<in>set store. is_active policy \<longrightarrow>
          find_applicable_premium (py_get policy ''premiums'' (PList [])) a c k = Inr None
          \<or> (\<exists>m x. find_applicable_premium (py_get policy ''premiums'' (PList [])) a c k
                      = Inr (Some m)
                    \<and> num_val (premium_amount m) = Some x \<and> b < x)"
  have "\<forall>policy\<in>set (find_active store). filter_policy a b c k policy = Inr []"
    using h filter_policy_empty by (simp add: find_active_def)
  then have "for_each (filter_policy a b c k) (find_active store) = Inr []"
    by (rule for_each_all_empty)
  then show "get_recommendations e store a b c k u n = Inr []"
    by (simp add: get_recommendations_def Let_def bind_err_def)
qed

lemma delta_premium:
  "find_applicable_premium (py_get (example_store ! 3) ''premiums'' (PList [])) 28 ''Mumbai''
     ''Individual''
   = Inr (Some \<lparr>premium_amount = PInt 20000, sum_insured = PInt 500000, zone = PStr ''Zone 1'',
                composition = PStr ''1A'', age_bracket = PStr ''18-35''\<rparr>)"
  by code_simp

theorem empty_results_witness:
  "find_active [example_store ! 2] = []
   \<and> get_recommendations example_env [example_store ! 2] 28 15000 ''Mumbai'' ''Individual''
        ''a good plan'' 5 = Inr []
   \<and> is_active (example_store ! 3)
   \<and> get_recommendations example_env [example_store ! 3] 28 15000 ''Mumbai'' ''Individual''
        ''a good plan'' 5 = Inr []"
proof -
  have g: "find_active [example_store ! 2] = []"
    by (simp add: find_active_def is_active_def example_store_def example_policy_def)
  have d: "is_active (example_store ! 3)"
    by (simp add: is_active_def example_store_def example_policy_def)
  have x: "num_val (PInt 20000) = Some 20000 \<and> (15000::rat) < 20000" by simp
  have h: "\<forall>policy\<in>set [example_store ! 3]. is_active policy \<longrightarrow>
          find_applicable_premium (py_get policy ''premiums'' (PList [])) 28 ''Mumbai''
            ''Individual'' = Inr None
          \<or> (\<exists>m x. find_applicable_premium (py_get policy ''premiums'' (PList [])) 28 ''Mumbai''
                      ''Individual'' = Inr (Some m)
                    \<and> num_val (premium_amount m) = Some x \<and> 15000 < x)"
    using delta_premium x by simp
  show ?thesis
    using empty_results [where store = "[example_store ! 2]" and e = example_env and a = 28
        and b = 15000 and c = "''Mumbai''" and k = "''Individual''" and u = "''a good plan''"
        and n = 5]
      empty_results [where store = "[example_store ! 3]" and e = example_env and a = 28
        and b = 15000 and c = "''Mumbai''" and k = "''Individual''" and u = "''a good plan''"
        and n = 5] g d h
    by blast
qed

lemma exact_score_combined:
  "combined_exact
     (match_percentage (keyword_matching u (extract_coverage_details e policy)))
     (similarity e u (cov_text (extract_coverage_details e policy)))
   = exact_score e u policy"
  by (simp add: combined_exact_def exact_score_def Let_def)

lemma keyword_run:
  "get_recommendations keyword_env keyword_store 28 15000 ''Mumbai'' ''Individual''
     ''Cancer and maternity cover'' 5 = Inr keyword_result"
  by code_simp

text \<open>
  C4. Every returned recommendation is the scoring of one policy of the store with the
  premium the resolver found for it, and for that policy: the keyword score of the entry
  is the match percentage of the user's text against the policy's extracted text
  (between 0 and 100), the semantic score is the similarity of the user's text and that
  same text, and the combined score of the entry is
  \<open>keyword_score * 0.007 + semantic_score * 0.3\<close>, rounded to 4 decimals as the entry
  stores it.
\<close>
theorem combined_score_formula:
  assumes "get_recommendations e store a b c k u n = Inr recs" and "r \<in> set recs"
  shows "\<exists>policy\<in>set store. \<exists>m.
           find_applicable_premium (py_get policy ''premiums'' (PList [])) a c k = Inr (Some m)
           \<and> score_policy e u (policy, m) = Inr [r]
           \<and> rec_keyword_score r
               = match_percentage (keyword_matching u (extract_coverage_details e policy))
           \<and> 0 \<le> rec_keyword_score r \<and> rec_keyword_score r \<le> 100
           \<and> nlp_score r
               = round4 (similarity e u (cov_text (extract_coverage_details e policy)))
           \<and> combined_score r
               = round4 (rec_keyword_score r * (7 / 1000)
                         + similarity e u (cov_text (extract_coverage_details e policy)) * (3 / 10))"
proof -
  from recommendation_origin [OF assms] obtain policy m where
    p: "policy \<in> set store"
    and f: "find_applicable_premium (py_get policy ''premiums'' (PList [])) a c k = Inr (Some m)"
    and s: "score_policy e u (policy, m) = Inr [r]" by blast
  have k: "rec_keyword_score r
             = match_percentage (keyword_matching u (extract_coverage_details e policy))"
    using s by (rule score_policy_fields(3))
  have n: "nlp_score r = round4 (similarity e u (cov_text (extract_coverage_details e policy)))"
    using s by (rule score_policy_fields(2))
  have c: "combined_score r
             = round4 (rec_keyword_score r * (7 / 1000)
                       + similarity e u (cov_text (extract_coverage_details e policy)) * (3 / 10))"
    using score_policy_fields(4) [OF s] by (simp add: k combined_exact_def)
  have bnd: "0 \<le> match_percentage (keyword_matching u (extract_coverage_details e policy))
             \<and> match_percentage (keyword_matching u (extract_coverage_details e policy)) \<le> 100"
    by (auto simp: keyword_matching_fields matched_le_requested divide_le_eq
        intro!: mult_right_mono [of _ 1 100, simplified])
  from bnd k have b2: "0 \<le> rec_keyword_score r \<and> rec_keyword_score r \<le> 100" by simp
  show ?thesis using p f s k n c b2 by blast
qed

theorem combined_score_formula_witness:
  "get_recommendations keyword_env keyword_store 28 15000 ''Mumbai'' ''Individual''
     ''Cancer and maternity cover'' 5 = Inr keyword_result
   \<and> keyword_result ! 1 \<in> set keyword_result
   \<and> policy_id (keyword_result ! 1) = ''k1''
   \<and> rec_keyword_score (keyword_result ! 1) = 50
   \<and> (\<exists>policy\<in>set keyword_store. \<exists>m.
        score_policy keyword_env ''Cancer and maternity cover'' (policy, m)
          = Inr [keyword_result ! 1]
        \<and> similarity keyword_env ''Cancer and maternity cover''
            (cov_text (extract_coverage_details keyword_env policy)) = 1 / 2
        \<and> combined_score (keyword_result ! 1) = round4 (50 * (7 / 1000) + 1 / 2 * (3 / 10)))"
proof -
  have m: "keyword_result ! 1 \<in> set keyword_result" by (simp add: keyword_result_def)
  have i: "policy_id (keyword_result ! 1) = ''k1''" by (simp add: keyword_result_def)
  have s: "rec_keyword_score (keyword_result ! 1) = 50" by (simp add: keyword_result_def)
  have n: "nlp_score (keyword_result ! 1) = 1 / 2" by (simp add: keyword_result_def)
  have r: "round4 (1 / 2) = 1 / 2" by code_simp
  have t: "\<forall>policy. similarity keyword_env ''Cancer and maternity cover''
            (cov_text (extract_coverage_details keyword_env policy)) = 1 / 2
         \<or> similarity keyword_env ''Cancer and maternity cover''
            (cov_text (extract_coverage_details keyword_env policy)) = 1 / 4"
    by (simp add: keyword_env_def)
  have q: "round4 (1 / 4) \<noteq> 1 / 2" by code_simp
  from combined_score_formula [OF keyword_run m] obtain policy m' where
    p: "policy \<in> set keyword_store"
    and sp: "score_policy keyword_env ''Cancer and maternity cover'' (policy, m')
          = Inr [keyword_result ! 1]"
    and nl: "nlp_score (keyword_result ! 1)
               = round4 (similarity keyword_env ''Cancer and maternity cover''
                   (cov_text (extract_coverage_details keyword_env policy)))"
    and cs: "combined_score (keyword_result ! 1)
               = round4 (rec_keyword_score (keyword_result ! 1) * (7 / 1000)
                         + similarity keyword_env ''Cancer and maternity cover''
                             (cov_text (extract_coverage_details keyword_env policy)) * (3 / 10))"
    by blast
  from t nl n q have sim: "similarity keyword_env ''Cancer and maternity cover''
            (cov_text (extract_coverage_details keyword_env policy)) = 1 / 2"
    by metis
  from cs have "combined_score (keyword_result ! 1) = round4 (50 * (7 / 1000) + 1 / 2 * (3 / 10))"
    unfolding s sim .
  with p sp sim show ?thesis using keyword_run m i s by blast
qed

lemma sorted_keys_nth:
  assumes "get_recommendations e store a b c k u n = Inr recs"
    and "i < j" and "j < length recs"
  shows "sort_key_of (recs ! i) \<le> sort_key_of (recs ! j)"
proof -
  have "sorted (map sort_key_of recs)" using assms(1) by (rule sorted_keys_output)
  then have "map sort_key_of recs ! i \<le> map sort_key_of recs ! j"
    using assms(2,3) by (simp add: sorted_iff_nth_mono)
  then show ?thesis using assms(2,3) by simp
qed

text \<open>
  C10 (as amended). Every returned recommendation is the scoring of one policy of the
  store, and its fields \<open>nlp_score\<close> and \<open>combined_score\<close> are that policy's exact
  scores rounded to 4 decimals; the sort is on the rounded combined score: an earlier
  entry never has the smaller rounded score, and of two entries with the same rounded
  combined score the earlier has the premium that is not larger.
\<close>
theorem rounded_scores_order:
  assumes "get_recommendations e store a b c k u n = Inr recs"
  shows "(\<forall>r\<in>set recs. \<exists>policy\<in>set store.
            (\<exists>m. score_policy e u (policy, m) = Inr [r])
            \<and> nlp_score r = round4 (similarity e u (cov_text (extract_coverage_details e policy)))
            \<and> combined_score r = round4 (exact_score e u policy))
       \<and> (\<forall>i j. i < j \<and> j < length recs \<longrightarrow>
            combined_score (recs ! j) \<le> combined_score (recs ! i)
            \<and> (combined_score (recs ! i) = combined_score (recs ! j) \<longrightarrow>
                 (\<exists>x y. num_val (premium (recs ! i)) = Some x
                      \<and> num_val (premium (recs ! j)) = Some y \<and> x \<le> y)))"
proof (intro conjI ballI allI impI)
  fix r assume r: "r \<in> set recs"
  from recommendation_origin [OF assms r] obtain policy m where
    p: "policy \<in> set store" and s: "score_policy e u (policy, m) = Inr [r]" by blast
  have "nlp_score r = round4 (similarity e u (cov_text (extract_coverage_details e policy)))"
    using s by (rule score_policy_fields(2))
  moreover have "combined_score r = round4 (exact_score e u policy)"
    using score_policy_fields(4) [OF s] by (simp add: exact_score_combined)
  ultimately show "\<exists>policy\<in>set store.
            (\<exists>m. score_policy e u (policy, m) = Inr [r])
            \<and> nlp_score r = round4 (similarity e u (cov_text (extract_coverage_details e policy)))
            \<and> combined_score r = round4 (exact_score e u policy)"
    using p s by blast
next
  fix i j assume ij: "i < j \<and> j < length recs"
  then have "sort_key_of (recs ! i) \<le> sort_key_of (recs ! j)"
    using sorted_keys_nth [OF assms] by blast
  then show "combined_score (recs ! j) \<le> combined_score (recs ! i)"
    by (auto simp: key_order)
next
  fix i j assume ij: "i < j \<and> j < length recs"
    and eq: "combined_score (recs ! i) = combined_score (recs ! j)"
  from ij have "sort_key_of (recs ! i) \<le> sort_key_of (recs ! j)"
    using sorted_keys_nth [OF assms] by blast
  with eq have le: "premium_num (recs ! i) \<le> premium_num (recs ! j)"
    by (auto simp: key_order)
  have "num_val (premium (recs ! i)) = Some (premium_num (recs ! i))"
    using output_numeric [OF assms, of "recs ! i"] ij by simp
  moreover have "num_val (premium (recs ! j)) = Some (premium_num (recs ! j))"
    using output_numeric [OF assms, of "recs ! j"] ij by simp
  ultimately show "\<exists>x y. num_val (premium (recs ! i)) = Some x
                      \<and> num_val (premium (recs ! j)) = Some y \<and> x \<le> y"
    using le by blast
qed

theorem rounded_scores_order_witness:
  "get_recommendations example_env example_store 28 15000 ''Mumbai'' ''Individual''
     ''a good plan'' 5 = Inr example_result
   \<and> (0::nat) < 1 \<and> 1 < length example_result
   \<and> combined_score (example_result ! 1) \<le> combined_score (example_result ! 0)
   \<and> (\<exists>policy\<in>set example_store.
        (\<exists>m. score_policy example_env ''a good plan'' (policy, m) = Inr [example_result ! 1])
        \<and> nlp_score (example_result ! 1)
            = round4 (similarity example_env ''a good plan''
                        (cov_text (extract_coverage_details example_env policy)))
        \<and> combined_score (example_result ! 1)
            = round4 (exact_score example_env ''a good plan'' policy))"
proof -
  have l: "(0::nat) < 1 \<and> 1 < length example_result" by (simp add: example_result_def)
  have m: "example_result ! 1 \<in> set example_result" by (simp add: example_result_def)
  from rounded_scores_order [OF example_run] l m show ?thesis
    using example_run by blast
qed

text \<open>
  C10 as worded lets any two candidates whose exact combined scores differ by less than
  0.0001 tie and go by premium. In the small store the exact scores of Alpha (0.00009)
  and Beta (0.00003) differ by 0.00006, yet they round to 0.0001 and 0.0, and Alpha at
  5000 is ranked before Beta at 4000.
\<close>
theorem close_scores_counterexample:
  "\<bar>exact_score example_env ''a good plan'' (example_store ! 0)
      - exact_score example_env ''a good plan'' (example_store ! 1)\<bar> < 1 / 10000
   \<and> get_recommendations example_env example_store 28 15000 ''Mumbai'' ''Individual''
        ''a good plan'' 5 = Inr example_result
   \<and> map policy_id example_result = [''a1'', ''b2'']
   \<and> map premium example_result = [PInt 5000, PInt 4000]
   \<and> map combined_score example_result = [1 / 10000, 0]"
proof -
  have a: "exact_score example_env ''a good plan'' (example_store ! 0) = 9 / 100000"
    by code_simp
  have b: "exact_score example_env ''a good plan'' (example_store ! 1) = 3 / 100000"
    by code_simp
  have d: "\<bar>exact_score example_env ''a good plan'' (example_store ! 0)
      - exact_score example_env ''a good plan'' (example_store ! 1)\<bar> < 1 / 10000"
    unfolding a b by simp
  have f: "map policy_id example_result = [''a1'', ''b2'']
     \<and> map premium example_result = [PInt 5000, PInt 4000]
     \<and> map combined_score example_result = [1 / 10000, 0]"
    by (simp add: example_result_def)
  show ?thesis using d example_run f by blast
qed

section \<open>The premium resolver against its specification\<close>






























section \<open>Records with holes do not stop the pass\<close>



































end
